theory Spec2Isabelle
  imports Complex_Main "HOL-Library.Sublist"
begin

section \<open>The OpenTSDB client model of tsdb.go\<close>

text \<open>
  A shallow embedding of \<^verbatim>\<open>opentsdb/tsdb.go\<close>. Go strings are byte sequences and are
  modelled as \<^typ>\<open>string\<close> (a list of 8-bit characters). Every function of the source
  that can return a non-nil \<^verbatim>\<open>error\<close> returns a sum here, \<open>Inl\<close> carrying the error.

  What the file takes from outside is a parameter of the function that uses it:
  \<^item> a reading of the wall clock by \<^verbatim>\<open>time.Now()\<close> (\<open>now\<close>, or \<open>now1\<close> and \<open>now2\<close> in the
    order of the calls, for a function that reads the clock twice);
  \<^item> \<open>tp\<close>, the function \<^verbatim>\<open>time.Parse\<close>, and \<open>pd\<close>, the duration-literal resolver
    \<^verbatim>\<open>ParseDuration\<close>;
  \<^item> \<open>L\<close> and \<open>D\<close>, the Unicode tables of letters and digits beyond ASCII;
  \<^item> \<open>marshal\<close>, the function \<^verbatim>\<open>json.Marshal\<close> on requests, and \<open>tr\<close>, the HTTP round trip
    of \<^verbatim>\<open>Request.Query\<close>.
\<close>

subsection \<open>Errors\<close>

text \<open>
  One constructor per place where the source creates an error, named after the message.
  \<open>ErrSyntax\<close> and \<open>ErrRange\<close> are the two errors of \<^verbatim>\<open>strconv.ParseInt\<close>;
  \<open>ErrExternal\<close> stands for an error produced by a collaborator outside the file
  (the duration-literal resolver, \<^verbatim>\<open>time.Parse\<close>, \<^verbatim>\<open>json.Marshal\<close>, the HTTP transport).
\<close>

datatype error =
    ErrCleanEmptyInput
  | ErrCleanEmptyResult
  | ErrBadQueryFormat string
  | ErrBadTag string
  | ErrDuplicatedTag string
  | ErrSyntax string
  | ErrRange string
  | ErrStartRequired
  | ErrTimeType
  | ErrTargetLength
  | ErrExternal string

subsection \<open>Library functions on strings and integers\<close>

text \<open>\<^verbatim>\<open>strings.HasPrefix\<close>, \<^verbatim>\<open>strings.HasSuffix\<close>, \<^verbatim>\<open>strings.TrimSuffix\<close>.\<close>

definition HasPrefix :: "string \<Rightarrow> string \<Rightarrow> bool" where
  "HasPrefix s p = (length s \<ge> length p \<and> take (length p) s = p)"

definition HasSuffix :: "string \<Rightarrow> string \<Rightarrow> bool" where
  "HasSuffix s x = (length s \<ge> length x \<and> drop (length s - length x) s = x)"

definition TrimSuffix :: "string \<Rightarrow> string \<Rightarrow> string" where
  "TrimSuffix s x = (if HasSuffix s x then take (length s - length x) s else s)"

text \<open>
  \<^verbatim>\<open>strconv.ParseInt(s, 10, 64)\<close>: an optional sign, then decimal digits read by the
  loop of \<^verbatim>\<open>ParseUint\<close>, which stops with a syntax error at the first byte that is no
  digit and with a range error as soon as the value leaves 64 bits (18446744073709551615
  is the largest \<^verbatim>\<open>uint64\<close>); then the range check of the signed result
  (9223372036854775808 is \<open>2\<^sup>6\<^sup>3\<close>).
\<close>

definition is_digit :: "char \<Rightarrow> bool" where
  "is_digit c = (0x30 \<le> (of_char c :: nat) \<and> (of_char c :: nat) \<le> 0x39)"

fun ParseUint_loop :: "string \<Rightarrow> int \<Rightarrow> string \<Rightarrow> error + int" where
  "ParseUint_loop s0 n [] = Inr n"
| "ParseUint_loop s0 n (c # cs) =
     (if \<not> is_digit c then Inl (ErrSyntax s0)
      else if n \<ge> 18446744073709551615 div 10 + 1 then Inl (ErrRange s0)
      else
        let n1 = n * 10 + (of_char c - 0x30) in
        if n1 > 18446744073709551615 then Inl (ErrRange s0) else ParseUint_loop s0 n1 cs)"

definition ParseUint :: "string \<Rightarrow> string \<Rightarrow> error + int" where
  "ParseUint s0 s = (if s = [] then Inl (ErrSyntax s0) else ParseUint_loop s0 0 s)"

definition ParseInt :: "string \<Rightarrow> error + int" where
  "ParseInt s =
     (if s = [] then Inl (ErrSyntax s)
      else
        let neg = (hd s = CHR ''-'');
            s' = (if hd s = CHR ''+'' \<or> hd s = CHR ''-'' then tl s else s)
        in
        case ParseUint s s' of
          Inl e \<Rightarrow> Inl e
        | Inr un \<Rightarrow>
            if \<not> neg \<and> un \<ge> 9223372036854775808 then Inl (ErrRange s)
            else if neg \<and> un > 9223372036854775808 then Inl (ErrRange s)
            else Inr (if neg then - un else un))"

text \<open>The verb \<^verbatim>\<open>%d\<close> of \<^verbatim>\<open>fmt\<close> on an integer: its decimal digits, with a sign.\<close>

function digits_of :: "int \<Rightarrow> string" where
  "digits_of n =
     (if n < 10 then [char_of (0x30 + n)]
      else digits_of (n div 10) @ [char_of (0x30 + n mod 10)])"
  by pat_completeness auto
termination
  by (relation "measure nat") auto

declare digits_of.simps [simp del]

definition fmt_d :: "int \<Rightarrow> string" where
  "fmt_d i = (if i < 0 then CHR ''-'' # digits_of (- i) else digits_of i)"

text \<open>
  Go divides integers with the quotient cut towards zero (\<open>quo\<close>), where \<^term>\<open>(div)\<close>
  of \<^typ>\<open>int\<close> takes the floor. The conversion \<^verbatim>\<open>int64(x)\<close> of a floating-point value
  drops its fraction.
\<close>

definition quo :: "int \<Rightarrow> int \<Rightarrow> int" where
  "quo a b = sgn a * sgn b * (\<bar>a\<bar> div \<bar>b\<bar>)"

text \<open>
  The value that 64-bit two's complement arithmetic leaves of an integer. The one
  quotient of two \<^verbatim>\<open>int64\<close> values that it changes is that of the most negative value
  by \<open>-1\<close>.
\<close>

definition wrap64 :: "int \<Rightarrow> int" where
  "wrap64 x = (x + 9223372036854775808) mod 18446744073709551616 - 9223372036854775808"

definition int64_of :: "real \<Rightarrow> int" where
  "int64_of x = (if x < 0 then \<lceil>x\<rceil> else \<lfloor>x\<rfloor>)"

subsection \<open>Splitting\<close>

text \<open>
  \<^verbatim>\<open>strings.Split(s, sep)\<close> for a separator of one byte: the pieces of \<open>s\<close> between the
  occurrences of the separator, one more than there are occurrences.
  \<^verbatim>\<open>strings.SplitN(s, sep, 2)\<close> cuts at the first occurrence only.
\<close>

fun Split :: "string \<Rightarrow> char \<Rightarrow> string list" where
  "Split [] sep = [[]]"
| "Split (c # cs) sep =
     (if c = sep then [] # Split cs sep
      else (c # hd (Split cs sep)) # tl (Split cs sep))"

definition SplitN2 :: "string \<Rightarrow> char \<Rightarrow> string list" where
  "SplitN2 s sep =
     (if sep \<in> set s then [takeWhile (\<lambda>c. c \<noteq> sep) s, tl (dropWhile (\<lambda>c. c \<noteq> sep) s)]
      else [s])"

subsection \<open>TagSet\<close>

text \<open>
  \<^verbatim>\<open>type TagSet map[string]string\<close>. A Go map is a finite set of key/value pairs with
  distinct keys that \<^verbatim>\<open>range\<close> visits in an unspecified order. The model is an
  association list: the pairs in the order a \<^verbatim>\<open>range\<close> loop visits them; a lookup
  \<^verbatim>\<open>t[k]\<close> is \<^term>\<open>map_of t k\<close>.
\<close>

type_synonym TagSet = "(string \<times> string) list"

text \<open>
  \<^verbatim>\<open>func (t TagSet) Subset(o TagSet) bool\<close>: the loop over \<^verbatim>\<open>o\<close> returns false at the
  first pair whose key is missing from \<^verbatim>\<open>t\<close> or bound to another value there.
\<close>

fun Subset :: "TagSet \<Rightarrow> TagSet \<Rightarrow> bool" where
  "Subset t [] = True"
| "Subset t ((k, v) # rest) =
     (case map_of t k of
        None \<Rightarrow> False
      | Some tv \<Rightarrow> if tv \<noteq> v then False else Subset t rest)"

text \<open>\<^verbatim>\<open>func (t TagSet) Equal(o TagSet) bool\<close>.\<close>

fun Equal_loop :: "TagSet \<Rightarrow> TagSet \<Rightarrow> bool" where
  "Equal_loop [] o' = True"
| "Equal_loop ((k, v) # rest) o' =
     (case map_of o' k of
        None \<Rightarrow> False
      | Some ov \<Rightarrow> if ov \<noteq> v then False else Equal_loop rest o')"

definition Equal :: "TagSet \<Rightarrow> TagSet \<Rightarrow> bool" where
  "Equal t o' = (if length t \<noteq> length o' then False else Equal_loop t o')"

subsection \<open>Clean\<close>

text \<open>
  \<^verbatim>\<open>utf8.DecodeRuneInString\<close>: the code point at the front of a byte string and the
  number of bytes it takes. A byte sequence that is not the UTF-8 encoding of a code
  point (a stray continuation byte, an overlong form, a surrogate, a value beyond
  U+10FFFF, a truncated sequence) decodes to \<open>RuneError\<close> with width 1.
\<close>

definition RuneError :: nat where
  "RuneError = 0xFFFD"

definition locb :: nat where
  "locb = 0x80"

definition hicb :: nat where
  "hicb = 0xBF"

definition DecodeRuneInString :: "string \<Rightarrow> nat \<times> nat" where
  "DecodeRuneInString s =
     (case s of
        [] \<Rightarrow> (RuneError, 0)
      | c0 # rest \<Rightarrow>
          let s0 = (of_char c0 :: nat) in
          if s0 < 0x80 then (s0, 1)
          else if s0 < 0xC2 \<or> 0xF4 < s0 then (RuneError, 1)
          else
            let sz = (if s0 < 0xE0 then 2 else if s0 < 0xF0 then 3 else 4 :: nat);
                lo = (if s0 = 0xE0 then 0xA0 else if s0 = 0xF0 then 0x90 else locb);
                hi = (if s0 = 0xED then 0x9F else if s0 = 0xF4 then 0x8F else hicb)
            in
            if length s < sz then (RuneError, 1)
            else
              let s1 = (of_char (s ! 1) :: nat) in
              if s1 < lo \<or> hi < s1 then (RuneError, 1)
              else if sz \<le> 2 then ((s0 mod 32) * 64 + s1 mod 64, 2)
              else
                let s2 = (of_char (s ! 2) :: nat) in
                if s2 < locb \<or> hicb < s2 then (RuneError, 1)
                else if sz \<le> 3 then ((s0 mod 16) * 4096 + (s1 mod 64) * 64 + s2 mod 64, 3)
                else
                  let s3 = (of_char (s ! 3) :: nat) in
                  if s3 < locb \<or> hicb < s3 then (RuneError, 1)
                  else ((s0 mod 8) * 262144 + (s1 mod 64) * 4096 + (s2 mod 64) * 64
                          + s3 mod 64, 4))"

text \<open>
  The conversion \<^verbatim>\<open>string(r)\<close> of a rune: its UTF-8 encoding, and the encoding of
  U+FFFD for a value that is no code point.
\<close>

definition EncodeRune :: "nat \<Rightarrow> string" where
  "EncodeRune r =
     (if r < 0x80 then [char_of r]
      else if r < 0x800 then [char_of (0xC0 + r div 64), char_of (0x80 + r mod 64)]
      else if 0x10FFFF < r \<or> (0xD800 \<le> r \<and> r \<le> 0xDFFF) then
        [char_of (0xEF :: nat), char_of (0xBF :: nat), char_of (0xBD :: nat)]
      else if r < 0x10000 then
        [char_of (0xE0 + r div 4096), char_of (0x80 + (r div 64) mod 64),
         char_of (0x80 + r mod 64)]
      else
        [char_of (0xF0 + r div 262144), char_of (0x80 + (r div 4096) mod 64),
         char_of (0x80 + (r div 64) mod 64), char_of (0x80 + r mod 64)])"

text \<open>
  \<^verbatim>\<open>unicode.IsLetter\<close> and \<^verbatim>\<open>unicode.IsDigit\<close>. On ASCII they are the ranges below;
  beyond ASCII they read the Unicode tables of the Go library, which are the parameters
  \<open>L\<close> (the letters) and \<open>D\<close> (the decimal digits).
\<close>

definition IsLetter :: "(nat \<Rightarrow> bool) \<Rightarrow> nat \<Rightarrow> bool" where
  "IsLetter L r =
     (if r < 0x80 then (0x41 \<le> r \<and> r \<le> 0x5A) \<or> (0x61 \<le> r \<and> r \<le> 0x7A) else L r)"

definition IsDigit :: "(nat \<Rightarrow> bool) \<Rightarrow> nat \<Rightarrow> bool" where
  "IsDigit D r = (if r < 0x80 then 0x30 \<le> r \<and> r \<le> 0x39 else D r)"

text \<open>The test of the loop body of \<^verbatim>\<open>Clean\<close>.\<close>

definition allowed :: "(nat \<Rightarrow> bool) \<Rightarrow> (nat \<Rightarrow> bool) \<Rightarrow> nat \<Rightarrow> bool" where
  "allowed L D r =
     (IsLetter L r \<or> IsDigit D r \<or> r = of_char CHR ''-'' \<or> r = of_char CHR ''_''
      \<or> r = of_char CHR ''.'' \<or> r = of_char CHR ''/'')"

text \<open>
  The loop \<^verbatim>\<open>for len(s) > 0 { r, size := utf8.DecodeRuneInString(s); ...; s = s[size:] }\<close>
  with the accumulator \<^verbatim>\<open>c\<close>.
\<close>

function Clean_loop :: "(nat \<Rightarrow> bool) \<Rightarrow> (nat \<Rightarrow> bool) \<Rightarrow> string \<Rightarrow> string \<Rightarrow> string" where
  "Clean_loop L D s c =
     (if length s > 0 then
        (case DecodeRuneInString s of
           (r, n) \<Rightarrow>
             Clean_loop L D (drop n s) (if allowed L D r then c @ EncodeRune r else c))
      else c)"
  by pat_completeness auto
termination
  by (relation "measure (\<lambda>(L, D, s, c). length s)")
    (auto simp: DecodeRuneInString_def Let_def split: list.splits if_splits)

declare Clean_loop.simps [simp del]

definition Clean :: "(nat \<Rightarrow> bool) \<Rightarrow> (nat \<Rightarrow> bool) \<Rightarrow> string \<Rightarrow> error + string" where
  "Clean L D s =
     (if length s = 0 then Inl ErrCleanEmptyInput
      else
        let c = Clean_loop L D s [] in
        if length c = 0 then Inl ErrCleanEmptyResult else Inr c)"

text \<open>
  The code points of a string, in order: what the loop of \<^verbatim>\<open>Clean\<close> sees, one
  \<^verbatim>\<open>DecodeRuneInString\<close> after the other. Used to state what \<^verbatim>\<open>Clean\<close> keeps.
\<close>

function runes :: "string \<Rightarrow> nat list" where
  "runes s =
     (if length s > 0 then
        (case DecodeRuneInString s of (r, n) \<Rightarrow> r # runes (drop n s))
      else [])"
  by pat_completeness auto
termination
  by (relation "measure length")
    (auto simp: DecodeRuneInString_def Let_def split: list.splits if_splits)

declare runes.simps [simp del]

subsection \<open>strings.TrimSpace\<close>

text \<open>
  \<^verbatim>\<open>unicode.IsSpace\<close>: the code points with the Unicode property White_Space. In Latin-1
  these are tab, line feed, vertical tab, form feed, carriage return, space, U+0085 and
  U+00A0; beyond it U+1680, U+2000 to U+200A, U+2028, U+2029, U+202F, U+205F and U+3000.
\<close>

definition IsSpace :: "nat \<Rightarrow> bool" where
  "IsSpace r =
     ((0x09 \<le> r \<and> r \<le> 0x0D) \<or> r = 0x20 \<or> r = 0x85 \<or> r = 0xA0 \<or> r = 0x1680
      \<or> (0x2000 \<le> r \<and> r \<le> 0x200A) \<or> r = 0x2028 \<or> r = 0x2029 \<or> r = 0x202F
      \<or> r = 0x205F \<or> r = 0x3000)"

text \<open>
  \<^verbatim>\<open>utf8.RuneStart\<close> and \<^verbatim>\<open>utf8.DecodeLastRuneInString\<close>: the code point at the end of a
  byte string and its width. From the last byte the function looks back over at most
  three more bytes for one that can start an encoding (\<open>look_back\<close>, the loop
  \<^verbatim>\<open>for start--; start >= lim; start--\<close> with \<^verbatim>\<open>lim\<close> four bytes before the end or at the
  front of the string, and the start it ends with), decodes from there, and accepts the
  result when it ends with the string; anything else is \<open>RuneError\<close> of width 1.
\<close>

definition RuneStart :: "char \<Rightarrow> bool" where
  "RuneStart b = ((of_char b :: nat) div 64 \<noteq> 2)"

definition look_back :: "string \<Rightarrow> nat" where
  "look_back s =
     (let end' = length s in
      if 2 \<le> end' \<and> RuneStart (s ! (end' - 2)) then end' - 2
      else if 3 \<le> end' \<and> RuneStart (s ! (end' - 3)) then end' - 3
      else if 4 \<le> end' \<and> RuneStart (s ! (end' - 4)) then end' - 4
      else end' - 5)"

definition DecodeLastRuneInString :: "string \<Rightarrow> nat \<times> nat" where
  "DecodeLastRuneInString s =
     (let end' = length s in
      if end' = 0 then (RuneError, 0)
      else
        let r = (of_char (s ! (end' - 1)) :: nat) in
        if r < 0x80 then (r, 1)
        else
          let start = look_back s in
          case DecodeRuneInString (drop start s) of
            (r', n) \<Rightarrow> if start + n \<noteq> end' then (RuneError, 1) else (r', n))"

text \<open>
  \<^verbatim>\<open>strings.TrimLeftFunc\<close>: the string from its first code point that does not satisfy
  \<open>f\<close>, empty when all do.
\<close>

function TrimLeftFunc :: "(nat \<Rightarrow> bool) \<Rightarrow> string \<Rightarrow> string" where
  "TrimLeftFunc f s =
     (if length s > 0 then
        (case DecodeRuneInString s of
           (r, n) \<Rightarrow> if f r then TrimLeftFunc f (drop n s) else s)
      else [])"
  by pat_completeness auto
termination
  by (relation "measure (\<lambda>(f, s). length s)")
    (auto simp: DecodeRuneInString_def Let_def split: list.splits if_splits)

declare TrimLeftFunc.simps [simp del]

text \<open>
  \<^verbatim>\<open>strings.TrimRightFunc\<close>. The loop of \<^verbatim>\<open>lastIndexFunc\<close> walks back from the end, one
  \<^verbatim>\<open>DecodeLastRuneInString\<close> at a time, to the index of the last code point that does not
  satisfy \<open>f\<close> (\<open>-1\<close> when all do); the string is cut after that code point. The
  argument of \<open>lastIndexFunc\<close> is the part \<^verbatim>\<open>s[0:i]\<close> of the string that the loop has not
  passed yet.
\<close>

function lastIndexFunc :: "(nat \<Rightarrow> bool) \<Rightarrow> string \<Rightarrow> int" where
  "lastIndexFunc f s =
     (if length s > 0 then
        (case DecodeLastRuneInString s of
           (r, n) \<Rightarrow>
             if \<not> f r then int (length s - n)
             else lastIndexFunc f (take (length s - n) s))
      else - 1)"
  by pat_completeness auto
termination
  apply (relation "measure (\<lambda>(f, s). length s)")
   apply simp
  subgoal premises prems for f s r n
  proof -
    from prems have ne: "0 < length s" and rn: "DecodeLastRuneInString s = (r, n)"
      by simp_all
    have st: "look_back s < length s"
      using ne by (auto simp: look_back_def Let_def)
    obtain r' n' where d: "DecodeRuneInString (drop (look_back s) s) = (r', n')"
      by (cases "DecodeRuneInString (drop (look_back s) s)")
    have "0 < snd (if look_back s + n' \<noteq> length s then (RuneError, 1) else (r', n'))"
      using st by auto
    then have "0 < snd (DecodeLastRuneInString s)"
      using ne d by (simp add: DecodeLastRuneInString_def Let_def)
    with rn have "0 < n" by simp
    with ne show ?thesis by simp
  qed
  done

declare lastIndexFunc.simps [simp del]

definition TrimRightFunc :: "(nat \<Rightarrow> bool) \<Rightarrow> string \<Rightarrow> string" where
  "TrimRightFunc f s =
     (let i = lastIndexFunc f s in
      if i \<ge> 0 \<and> (of_char (s ! nat i) :: nat) \<ge> 0x80
      then take (nat i + snd (DecodeRuneInString (drop (nat i) s))) s
      else take (nat (i + 1)) s)"

definition TrimSpace :: "string \<Rightarrow> string" where
  "TrimSpace s = TrimRightFunc IsSpace (TrimLeftFunc IsSpace s)"

subsection \<open>Requests and queries\<close>

text \<open>
  A value of type \<^verbatim>\<open>interface{}\<close>, as far as the type switches of the file tell values
  apart: \<^verbatim>\<open>nil\<close>, a \<^verbatim>\<open>string\<close>, an \<^verbatim>\<open>int64\<close>, or a value of any other dynamic type
  (given by its printed form).
\<close>

datatype iface = VNil | VString string | VInt64 int | VOther string

record RateOptions =
  Counter :: bool
  CounterMax :: int
  ResetValue :: int

record Query =
  Aggregator :: string
  Metric :: string
  Rate :: bool
  RateOptions :: RateOptions
  Downsample :: string
  Tags :: TagSet

record Request =
  Start :: iface
  End :: iface
  Queries :: "Query list"
  NoAnnotations :: bool
  GlobalAnnotations :: bool
  MsResolution :: bool
  ShowTSUIDs :: bool

subsection \<open>The regular expression of queries\<close>

text \<open>
  The fragment of the syntax of \<^verbatim>\<open>regexp\<close> that \<^verbatim>\<open>qRE\<close> uses: the anchors \<^verbatim>\<open>^\<close> and
  \<^verbatim>\<open>$\<close>, literal text, \<^verbatim>\<open>+\<close> and \<^verbatim>\<open>*\<close> on a character class, concatenation, \<^verbatim>\<open>?\<close>
  on a group, and numbered capturing groups. Classes are predicates on bytes; the
  classes of \<^verbatim>\<open>qRE\<close> other than \<^verbatim>\<open>.\<close> hold ASCII only, and after \<^verbatim>\<open>.*\<close> comes an ASCII
  byte, so matching bytes and matching code points capture the same text.
\<close>

datatype re =
    Bot
  | Eot
  | Lits string
  | Plus "char \<Rightarrow> bool"
  | Star "char \<Rightarrow> bool"
  | Cat re re
  | Opt re
  | Grp nat re

type_synonym caps = "nat \<Rightarrow> (nat \<times> nat) option"

text \<open>
  Go's \<^verbatim>\<open>regexp\<close> returns, among the matches that begin leftmost, the one a backtracking
  matcher finds first. \<open>run inp e p cs\<close> lists the ways to match \<open>e\<close> in \<open>inp\<close> from
  position \<open>p\<close> in the order in which backtracking tries them (the repetitions and
  \<^verbatim>\<open>?\<close> are greedy: longest first, present before absent), each with the position after
  the match and the spans of the groups.
\<close>

fun run :: "string \<Rightarrow> re \<Rightarrow> nat \<Rightarrow> caps \<Rightarrow> (nat \<times> caps) list" where
  "run inp Bot p cs = (if p = 0 then [(p, cs)] else [])"
| "run inp Eot p cs = (if p = length inp then [(p, cs)] else [])"
| "run inp (Lits l) p cs =
     (if take (length l) (drop p inp) = l then [(p + length l, cs)] else [])"
| "run inp (Plus cl) p cs =
     map (\<lambda>k. (p + k, cs)) (rev [1 ..< Suc (length (takeWhile cl (drop p inp)))])"
| "run inp (Star cl) p cs =
     map (\<lambda>k. (p + k, cs)) (rev [0 ..< Suc (length (takeWhile cl (drop p inp)))])"
| "run inp (Cat a b) p cs =
     concat (map (\<lambda>(q, cs'). run inp b q cs') (run inp a p cs))"
| "run inp (Opt a) p cs = run inp a p cs @ [(p, cs)]"
| "run inp (Grp i a) p cs =
     map (\<lambda>(q, cs'). (q, cs'(i \<mapsto> (p, q)))) (run inp a p cs)"

fun cats :: "re list \<Rightarrow> re" where
  "cats [] = Lits []"
| "cats [e] = e"
| "cats (e # es) = Cat e (cats es)"

fun NumSubexp :: "re \<Rightarrow> nat" where
  "NumSubexp (Cat a b) = max (NumSubexp a) (NumSubexp b)"
| "NumSubexp (Opt a) = NumSubexp a"
| "NumSubexp (Grp i a) = max i (NumSubexp a)"
| "NumSubexp e = 0"

text \<open>
  \<^verbatim>\<open>FindStringSubmatch\<close>: the first start position with a match, and of that match the
  matched text followed by the text of each group, empty for a group that took no part;
  \<open>None\<close> is the \<^verbatim>\<open>nil\<close> slice of no match.
\<close>

fun first_match :: "string \<Rightarrow> re \<Rightarrow> nat list \<Rightarrow> (nat \<times> nat \<times> caps) option" where
  "first_match inp e [] = None"
| "first_match inp e (p # ps) =
     (case run inp e p Map.empty of
        [] \<Rightarrow> first_match inp e ps
      | (q, cs) # rest \<Rightarrow> Some (p, q, cs))"

definition span_text :: "string \<Rightarrow> (nat \<times> nat) option \<Rightarrow> string" where
  "span_text inp sp = (case sp of None \<Rightarrow> [] | Some (a, b) \<Rightarrow> take (b - a) (drop a inp))"

definition FindStringSubmatch :: "re \<Rightarrow> string \<Rightarrow> string list option" where
  "FindStringSubmatch e inp =
     (case first_match inp e [0 ..< Suc (length inp)] of
        None \<Rightarrow> None
      | Some (p, q, cs) \<Rightarrow>
          Some (span_text inp (Some (p, q))
                  # map (\<lambda>i. span_text inp (cs i)) [1 ..< Suc (NumSubexp e)]))"

text \<open>
  The classes \<^verbatim>\<open>\w\<close>, \<^verbatim>\<open>.\<close>, \<^verbatim>\<open>[\w./]\<close> and \<^verbatim>\<open>[\w./,=*-|]\<close>; in the last one \<^verbatim>\<open>*-|\<close> is
  the range from \<^verbatim>\<open>*\<close> (0x2A) to \<^verbatim>\<open>|\<close> (0x7C).
\<close>

definition cls_w :: "char \<Rightarrow> bool" where
  "cls_w c =
     (let n = (of_char c :: nat) in
      (0x30 \<le> n \<and> n \<le> 0x39) \<or> (0x41 \<le> n \<and> n \<le> 0x5A) \<or> (0x61 \<le> n \<and> n \<le> 0x7A)
      \<or> c = CHR ''_'')"

definition cls_dot :: "char \<Rightarrow> bool" where
  "cls_dot c = (c \<noteq> CHR 0x0A)"

definition cls_metric :: "char \<Rightarrow> bool" where
  "cls_metric c = (cls_w c \<or> c = CHR ''.'' \<or> c = CHR ''/'')"

definition cls_tags :: "char \<Rightarrow> bool" where
  "cls_tags c =
     (cls_w c \<or> c = CHR ''.'' \<or> c = CHR ''/'' \<or> c = CHR '','' \<or> c = CHR ''=''
      \<or> (0x2A \<le> (of_char c :: nat) \<and> (of_char c :: nat) \<le> 0x7C))"

text \<open>
  \<^verbatim>\<open>^(\w+):(?:(\w+-\w+):)?(?:(rate.*):)?([\w./]+)(?:\{([\w./,=*-|]+)\})?$\<close>
\<close>

definition qRE :: re where
  "qRE =
     cats [Bot,
           Grp 1 (Plus cls_w), Lits '':'',
           Opt (cats [Grp 2 (cats [Plus cls_w, Lits ''-'', Plus cls_w]), Lits '':'']),
           Opt (cats [Grp 3 (cats [Lits ''rate'', Star cls_dot]), Lits '':'']),
           Grp 4 (Plus cls_metric),
           Opt (cats [Lits ''{'', Grp 5 (Plus cls_tags), Lits ''}'']),
           Eot]"

subsection \<open>ParseQuery, ParseTags, Query.String\<close>

text \<open>
  \<^verbatim>\<open>ParseTags\<close>. A tag that is new to the map is put at the end of the association list.
\<close>

fun ParseTags_loop :: "string list \<Rightarrow> TagSet \<Rightarrow> error + TagSet" where
  "ParseTags_loop [] ts = Inr ts"
| "ParseTags_loop (v # vs) ts =
     (let sp = SplitN2 v CHR ''='' in
      if length sp \<noteq> 2 then Inl (ErrBadTag v)
      else
        let k = TrimSpace (sp ! 0); w = TrimSpace (sp ! 1) in
        if map_of ts k \<noteq> None then Inl (ErrDuplicatedTag v)
        else ParseTags_loop vs (ts @ [(k, w)]))"

definition ParseTags :: "string \<Rightarrow> error + TagSet" where
  "ParseTags t = ParseTags_loop (Split t CHR '','') []"

text \<open>
  The block \<^verbatim>\<open>if q.Rate { ... }\<close> of \<^verbatim>\<open>ParseQuery\<close>, on \<^verbatim>\<open>m[3]\<close> and the rate options
  so far.
\<close>

definition ParseQuery_rate :: "string \<Rightarrow> RateOptions \<Rightarrow> error + RateOptions" where
  "ParseQuery_rate m3 ro =
     (let sp = Split m3 CHR '','';
          ro1 = ro\<lparr>Counter := length sp > 1\<rparr>
      in
      case (if length sp > 2 \<and> sp ! 2 \<noteq> []
            then (case ParseInt (sp ! 2) of
                    Inl err \<Rightarrow> Inl err
                  | Inr i \<Rightarrow> Inr (ro1\<lparr>CounterMax := i\<rparr>))
            else Inr ro1) of
        Inl err \<Rightarrow> Inl err
      | Inr ro2 \<Rightarrow>
          if length sp > 3
          then (case ParseInt (sp ! 3) of
                  Inl err \<Rightarrow> Inl err
                | Inr i \<Rightarrow> Inr (ro2\<lparr>ResetValue := i\<rparr>))
          else Inr ro2)"

definition ParseQuery :: "string \<Rightarrow> error + Query" where
  "ParseQuery query =
     (case FindStringSubmatch qRE query of
        None \<Rightarrow> Inl (ErrBadQueryFormat query)
      | Some m \<Rightarrow>
          let q = \<lparr>Aggregator = m ! 1, Metric = [], Rate = HasPrefix (m ! 3) ''rate'',
                   RateOptions = \<lparr>Counter = False, CounterMax = 0, ResetValue = 0\<rparr>,
                   Downsample = m ! 2, Tags = []\<rparr>
          in
          case (if Rate q then ParseQuery_rate (m ! 3) (RateOptions q)
                else Inr (RateOptions q)) of
            Inl err \<Rightarrow> Inl err
          | Inr ro \<Rightarrow>
              let q' = q\<lparr>RateOptions := ro, Metric := m ! 4\<rparr> in
              if m ! 5 \<noteq> [] then
                (case ParseTags (m ! 5) of
                   Inl err \<Rightarrow> Inl err
                 | Inr tags \<Rightarrow> Inr (q'\<lparr>Tags := tags\<rparr>))
              else Inr q')"

text \<open>
  \<^verbatim>\<open>func (q Query) String() string\<close>. The loop over the tags visits them in the order of
  the association list.
\<close>

fun String_tags :: "TagSet \<Rightarrow> bool \<Rightarrow> string \<Rightarrow> string" where
  "String_tags [] first s = s"
| "String_tags ((k, v) # rest) first s =
     String_tags rest False ((if first then s else s @ '','') @ k @ ''='' @ v)"

definition Query_String :: "Query \<Rightarrow> string" where
  "Query_String q =
     (let s = Aggregator q @ '':'';
          s = (if Downsample q \<noteq> [] then s @ Downsample q @ '':'' else s);
          s = (if Rate q then s @ ''rate:'' else s);
          s = s @ Metric q
      in
      if length (Tags q) > 0 then String_tags (Tags q) True (s @ ''{'') @ ''}'' else s)"

subsection \<open>Times and durations\<close>

text \<open>
  A \<^verbatim>\<open>time.Time\<close> is modelled by the instant it denotes, in nanoseconds since the Unix
  epoch; its location (\<^verbatim>\<open>UTC()\<close>) does not change the instant. \<^verbatim>\<open>time.Unix(i, 0)\<close> is
  the instant \<open>i\<close> seconds after the epoch and \<^verbatim>\<open>t.Unix()\<close> the number of whole
  seconds from the epoch to \<open>t\<close>, rounded down.

  Modelled from the spec: the type \<^verbatim>\<open>Duration\<close> and its method \<^verbatim>\<open>Seconds\<close> are
  declared in another file of the package. The spec has a Duration as "a signed time
  span with support for comparison and arithmetic"; the conversions from
  \<^verbatim>\<open>time.Duration\<close> in the file make it a number of nanoseconds. \<open>Seconds\<close> is the span
  in seconds as a real number (the rounding of a floating-point result is not modelled).

  A \<^verbatim>\<open>time.Duration\<close> is an \<^verbatim>\<open>int64\<close> of nanoseconds, so it spans about 292 years
  either way. \<^verbatim>\<open>t.Sub(u)\<close> is the difference of the two instants when a duration can
  hold it, and otherwise the smallest duration (\<open>minDuration\<close>, \<open>-2\<^sup>6\<^sup>3\<close>) or the largest
  (\<open>maxDuration\<close>, \<open>2\<^sup>6\<^sup>3 - 1\<close>). Instants themselves are unbounded integers (a
  \<^verbatim>\<open>time.Time\<close> counts seconds in an \<^verbatim>\<open>int64\<close>, some 292 billion years either way).
\<close>

type_synonym time = int
type_synonym Duration = int

definition Second :: Duration where
  "Second = 1000000000"

definition time_Unix :: "int \<Rightarrow> time" where
  "time_Unix i = i * 1000000000"

definition Unix :: "time \<Rightarrow> int" where
  "Unix t = t div 1000000000"

definition Add :: "time \<Rightarrow> Duration \<Rightarrow> time" where
  "Add t d = t + d"

definition minDuration :: Duration where
  "minDuration = - 9223372036854775808"

definition maxDuration :: Duration where
  "maxDuration = 9223372036854775807"

definition Sub :: "time \<Rightarrow> time \<Rightarrow> Duration" where
  "Sub t u =
     (let d = t - u in
      if d < minDuration then minDuration
      else if d > maxDuration then maxDuration
      else d)"

definition Seconds :: "Duration \<Rightarrow> real" where
  "Seconds d = real_of_int d / 1000000000"

text \<open>
  \<^verbatim>\<open>ParseAbsTime\<close>. \<^verbatim>\<open>time.Parse(layout, value)\<close> belongs to the Go library and is the
  parameter \<open>tp\<close>. The four layouts are tried in the order of the array; when none
  parses \<open>s\<close>, \<open>s\<close> is read as a number of seconds.
\<close>

definition t_formats :: "string list" where
  "t_formats =
     [''2006/01/02-15:04:05'', ''2006/01/02-15:04'', ''2006/01/02-15'', ''2006/01/02'']"

fun try_formats :: "(string \<Rightarrow> string \<Rightarrow> error + time) \<Rightarrow> string list \<Rightarrow> string \<Rightarrow> time option" where
  "try_formats tp [] s = None"
| "try_formats tp (f # fs) s =
     (case tp f s of Inr t \<Rightarrow> Some t | Inl err \<Rightarrow> try_formats tp fs s)"

definition ParseAbsTime :: "(string \<Rightarrow> string \<Rightarrow> error + time) \<Rightarrow> string \<Rightarrow> error + time" where
  "ParseAbsTime tp s =
     (case try_formats tp t_formats s of
        Some t \<Rightarrow> Inr t
      | None \<Rightarrow> (case ParseInt s of Inl err \<Rightarrow> Inl err | Inr i \<Rightarrow> Inr (time_Unix i)))"

text \<open>
  \<^verbatim>\<open>ParseTime\<close>. The duration-literal resolver \<^verbatim>\<open>ParseDuration\<close> is declared in another
  file of the package and is the parameter \<open>pd\<close>. \<open>now\<close> is what the call
  \<^verbatim>\<open>time.Now()\<close> in the first line of the function returns.
\<close>

definition ParseTime ::
  "(string \<Rightarrow> string \<Rightarrow> error + time) \<Rightarrow> (string \<Rightarrow> error + Duration) \<Rightarrow> time \<Rightarrow> iface
     \<Rightarrow> error + time" where
  "ParseTime tp pd now v =
     (case v of
        VString i \<Rightarrow>
          if i \<noteq> [] then
            if HasSuffix i ''-ago'' then
              let s = TrimSuffix i ''-ago'' in
              (case pd s of Inl err \<Rightarrow> Inl err | Inr d \<Rightarrow> Inr (Add now (- d)))
            else ParseAbsTime tp i
          else Inr now
      | VInt64 i \<Rightarrow> Inr (time_Unix i)
      | _ \<Rightarrow> Inl ErrTimeType)"

text \<open>
  \<^verbatim>\<open>GetDuration\<close> reads the clock twice: \<open>now1\<close> is the reading inside
  \<^verbatim>\<open>ParseTime(r.Start)\<close>, \<open>now2\<close> the later one, inside \<^verbatim>\<open>ParseTime(r.End)\<close> or, when
  the end is \<^verbatim>\<open>nil\<close>, of \<^verbatim>\<open>end = time.Now()\<close>.
\<close>

definition GetDuration ::
  "(string \<Rightarrow> string \<Rightarrow> error + time) \<Rightarrow> (string \<Rightarrow> error + Duration) \<Rightarrow> time \<Rightarrow> time
     \<Rightarrow> Request \<Rightarrow> error + Duration" where
  "GetDuration tp pd now1 now2 r =
     (if Start r = VString [] then Inl ErrStartRequired
      else
        case ParseTime tp pd now1 (Start r) of
          Inl err \<Rightarrow> Inl err
        | Inr start \<Rightarrow>
            (case (if End r \<noteq> VNil then ParseTime tp pd now2 (End r) else Inr now2) of
               Inl err \<Rightarrow> Inl err
             | Inr end' \<Rightarrow> Inr (Sub end' start)))"

text \<open>
  \<^verbatim>\<open>AutoDownsample\<close>. The queries of a request are pointers, so the assignment in the
  loop changes the request of the caller: the function returns the request it leaves.
\<close>

definition AutoDownsample ::
  "(string \<Rightarrow> string \<Rightarrow> error + time) \<Rightarrow> (string \<Rightarrow> error + Duration) \<Rightarrow> time \<Rightarrow> time
     \<Rightarrow> Request \<Rightarrow> int \<Rightarrow> error + Request" where
  "AutoDownsample tp pd now1 now2 r l =
     (if l = 0 then Inl ErrTargetLength
      else
        case GetDuration tp pd now1 now2 r of
          Inl err \<Rightarrow> Inl err
        | Inr cd \<Rightarrow>
            let d = wrap64 (quo cd l) in
            if d < Second * 15 then Inr r
            else
              let ds = fmt_d (int64_of (Seconds d)) @ ''s-avg'' in
              Inr (r\<lparr>Queries := map (\<lambda>q. q\<lparr>Downsample := ds\<rparr>) (Queries r)\<rparr>))"

subsection \<open>Cache and DateCache\<close>

text \<open>
  \<^verbatim>\<open>Request.Query(host)\<close> posts the request to the remote service, which is outside the
  file: it is the parameter \<open>tr\<close>, the transport. Its answer may differ from one
  invocation to the next, so it is given the invocations made before (host and request,
  oldest first) besides its own host and request. That list, \<open>wire\<close>, is part of the
  state the functions below pass on; its length is the number of transport invocations.
  \<^verbatim>\<open>json.Marshal\<close> is the parameter \<open>marshal\<close>. The responses are of any type \<open>'a\<close>;
  a \<^verbatim>\<open>ResponseSet\<close> is a list of them and \<^verbatim>\<open>nil\<close> the empty list.
\<close>

type_synonym 'a transport = "(string \<times> Request) list \<Rightarrow> string \<Rightarrow> Request \<Rightarrow> 'a list \<times> error option"

record 'a cacheResult =
  ResponseSet :: "'a list"
  Err :: "error option"

record 'a Cache =
  host :: string
  cache :: "string \<rightharpoonup> 'a cacheResult"

definition NewCache :: "string \<Rightarrow> 'a Cache" where
  "NewCache h = \<lparr>host = h, cache = Map.empty\<rparr>"

definition Cache_Query ::
  "(Request \<Rightarrow> error + string) \<Rightarrow> 'a transport \<Rightarrow> 'a Cache \<Rightarrow> (string \<times> Request) list \<Rightarrow> Request
     \<Rightarrow> ('a list \<times> error option) \<times> 'a Cache \<times> (string \<times> Request) list" where
  "Cache_Query marshal tr c wire r =
     (case marshal r of
        Inl err \<Rightarrow> (([], Some err), c, wire)
      | Inr s \<Rightarrow>
          (case cache c s of
             Some v \<Rightarrow> ((ResponseSet v, Err v), c, wire)
           | None \<Rightarrow>
               (case tr wire (host c) r of
                  (rs, e) \<Rightarrow>
                    ((rs, e),
                     c\<lparr>cache := (cache c)(s \<mapsto> \<lparr>ResponseSet = rs, Err = e\<rparr>)\<rparr>,
                     wire @ [(host c, r)]))))"

text \<open>A sequence of calls of \<^verbatim>\<open>Cache.Query\<close>, one request after the other.\<close>

fun Cache_Queries ::
  "(Request \<Rightarrow> error + string) \<Rightarrow> 'a transport \<Rightarrow> 'a Cache \<Rightarrow> (string \<times> Request) list
     \<Rightarrow> Request list \<Rightarrow> 'a Cache \<times> (string \<times> Request) list" where
  "Cache_Queries marshal tr c wire [] = (c, wire)"
| "Cache_Queries marshal tr c wire (r # rs) =
     (case Cache_Query marshal tr c wire r of
        (res, c', wire') \<Rightarrow> Cache_Queries marshal tr c' wire' rs)"

record 'a DateCache =
  Cache :: "'a Cache"
  now :: time

definition NewDateCache :: "string \<Rightarrow> time \<Rightarrow> 'a DateCache" where
  "NewDateCache h t = \<lparr>Cache = NewCache h, now = t\<rparr>"

text \<open>
  \<^verbatim>\<open>DateCache.Query\<close> up to its last line: the request it hands to \<^verbatim>\<open>c.Cache.Query\<close>,
  or the error it returns before. As in \<^verbatim>\<open>GetDuration\<close> the clock is read twice,
  \<open>now1\<close> inside \<^verbatim>\<open>ParseTime(r.Start)\<close> and \<open>now2\<close> after it; \<open>cnow\<close> is \<^verbatim>\<open>c.now\<close>.
\<close>

definition DateCache_rewrite ::
  "(string \<Rightarrow> string \<Rightarrow> error + time) \<Rightarrow> (string \<Rightarrow> error + Duration) \<Rightarrow> time \<Rightarrow> time
     \<Rightarrow> time \<Rightarrow> Request \<Rightarrow> error + Request" where
  "DateCache_rewrite tp pd now1 now2 cnow r =
     (case ParseTime tp pd now1 (Start r) of
        Inl err \<Rightarrow> Inl err
      | Inr start \<Rightarrow>
          (case (if End r \<noteq> VNil then ParseTime tp pd now2 (End r) else Inr now2) of
             Inl err \<Rightarrow> Inl err
           | Inr end' \<Rightarrow>
               let diff = Sub cnow end';
                   start' = Add start diff;
                   end'' = Add end' diff
               in Inr (r\<lparr>Start := VInt64 (Unix start'), End := VInt64 (Unix end'')\<rparr>)))"

definition DateCache_Query ::
  "(Request \<Rightarrow> error + string) \<Rightarrow> 'a transport \<Rightarrow> (string \<Rightarrow> string \<Rightarrow> error + time)
     \<Rightarrow> (string \<Rightarrow> error + Duration) \<Rightarrow> time \<Rightarrow> time \<Rightarrow> 'a DateCache
     \<Rightarrow> (string \<times> Request) list \<Rightarrow> Request
     \<Rightarrow> ('a list \<times> error option) \<times> 'a DateCache \<times> (string \<times> Request) list" where
  "DateCache_Query marshal tr tp pd now1 now2 c wire r =
     (case DateCache_rewrite tp pd now1 now2 (now c) r of
        Inl err \<Rightarrow> (([], Some err), c, wire)
      | Inr r' \<Rightarrow>
          (case Cache_Query marshal tr (Cache c) wire r' of
             (res, c', wire') \<Rightarrow> (res, c\<lparr>Cache := c'\<rparr>, wire')))"

subsection \<open>Collaborators at concrete inputs\<close>

text \<open>
  Modelled from the spec: the duration-literal resolver is outside the file; the spec has
  it convert "a textual duration expression (e.g., "1h30m") into a machine duration".
  The functions of this theory take the resolver as the parameter \<open>pd\<close>. To evaluate
  them at the requests of the spec's examples, \<open>resolve_literal\<close> resolves the literals
  used there and rejects every other text; \<open>no_layout\<close> is a \<^verbatim>\<open>time.Parse\<close> on texts
  that fit none of the four layouts.
\<close>

definition resolve_literal :: "string \<Rightarrow> error + Duration" where
  "resolve_literal s =
     (if s = ''1h'' then Inr (3600 * Second)
      else if s = ''10s'' then Inr (10 * Second)
      else Inl (ErrExternal s))"

definition no_layout :: "string \<Rightarrow> string \<Rightarrow> error + time" where
  "no_layout layout v = Inl (ErrExternal v)"

text \<open>
  A serialization for concrete inputs, in place of \<^verbatim>\<open>json.Marshal\<close>: it writes the start
  of a request and nothing else, so that requests with the same start serialize alike.
\<close>

definition show_start :: "iface \<Rightarrow> string" where
  "show_start v =
     (case v of VNil \<Rightarrow> ''null'' | VString s \<Rightarrow> s | VInt64 i \<Rightarrow> fmt_d i | VOther s \<Rightarrow> s)"

section \<open>Properties\<close>

subsection \<open>TagSet.Subset\<close>

text \<open>
  C9. For all TagSets \<open>t\<close> and \<open>o\<close>, \<open>t.Subset(o)\<close> is true if and only if every
  key/value pair of \<open>o\<close> is present in \<open>t\<close> with the identical value. In particular,
  when \<open>o\<close> is built from a subset of the keys of \<open>t\<close> with the values \<open>t\<close> gives them
  the result is true, and when a key the two share has different values the result is
  false.
\<close>

theorem Subset_iff:
  "(Subset t o' \<longleftrightarrow> (\<forall>(k, v) \<in> set o'. map_of t k = Some v))
   \<and> (set ks \<subseteq> dom (map_of t) \<longrightarrow> Subset t (map (\<lambda>k. (k, the (map_of t k))) ks))
   \<and> ((\<exists>k v w. (k, v) \<in> set o' \<and> map_of t k = Some w \<and> w \<noteq> v) \<longrightarrow> \<not> Subset t o')"
proof -
  have main: "\<And>p. Subset t p \<longleftrightarrow> (\<forall>(k, v) \<in> set p. map_of t k = Some v)"
  proof -
    fix p show "Subset t p \<longleftrightarrow> (\<forall>(k, v) \<in> set p. map_of t k = Some v)"
      by (induction p) (auto split: option.splits if_splits)
  qed
  have sub: "set ks \<subseteq> dom (map_of t) \<longrightarrow> Subset t (map (\<lambda>k. (k, the (map_of t k))) ks)"
    unfolding main by auto
  have diff: "(\<exists>k v w. (k, v) \<in> set o' \<and> map_of t k = Some w \<and> w \<noteq> v) \<longrightarrow> \<not> Subset t o'"
    unfolding main by fastforce
  from main [of o'] sub diff show ?thesis by blast
qed

theorem Subset_iff_witness:
  "(Subset [(''host'', ''web01''), (''dc'', ''ny'')] [(''dc'', ''ny'')]
      \<longleftrightarrow> (\<forall>(k, v) \<in> set [(''dc'', ''ny'')].
             map_of [(''host'', ''web01''), (''dc'', ''ny'')] k = Some v))
   \<and> Subset [(''host'', ''web01''), (''dc'', ''ny'')] [(''dc'', ''ny'')]
   \<and> \<not> Subset [(''host'', ''web01''), (''dc'', ''ny'')] [(''dc'', ''lon'')]"
  using Subset_iff [of "[(''host'', ''web01''), (''dc'', ''ny'')]" "[(''dc'', ''ny'')]" "[''dc'']"]
    Subset_iff [of "[(''host'', ''web01''), (''dc'', ''ny'')]" "[(''dc'', ''lon'')]" "[]"]
  by simp

subsection \<open>Clean\<close>

lemma EncodeRune_not_Nil: "EncodeRune r \<noteq> []"
  by (simp add: EncodeRune_def)

lemma Clean_loop_eq:
  "Clean_loop L D s c = c @ concat (map EncodeRune (filter (allowed L D) (runes s)))"
proof (induction L D s c rule: Clean_loop.induct)
  case (1 L D s c)
  show ?case
  proof (cases "length s > 0")
    case False
    then show ?thesis by (simp add: Clean_loop.simps runes.simps)
  next
    case True
    obtain r n where d: "DecodeRuneInString s = (r, n)" by (cases "DecodeRuneInString s")
    have ih: "Clean_loop L D (drop n s) (if allowed L D r then c @ EncodeRune r else c)
        = (if allowed L D r then c @ EncodeRune r else c)
          @ concat (map EncodeRune (filter (allowed L D) (runes (drop n s))))"
      using "1.IH" [OF True d [symmetric]] .
    have l: "Clean_loop L D s c
        = Clean_loop L D (drop n s) (if allowed L D r then c @ EncodeRune r else c)"
      using True d by (subst Clean_loop.simps) simp
    have r: "runes s = r # runes (drop n s)"
      using True d by (subst runes.simps) simp
    show ?thesis unfolding l ih r by simp
  qed
qed

lemma concat_EncodeRune_Nil: "concat (map EncodeRune rs) = [] \<longleftrightarrow> rs = []"
  by (cases rs) (simp_all add: EncodeRune_not_Nil)

lemma Clean_runes:
  "Clean L D s =
     (if s = [] then Inl ErrCleanEmptyInput
      else if filter (allowed L D) (runes s) = [] then Inl ErrCleanEmptyResult
      else Inr (concat (map EncodeRune (filter (allowed L D) (runes s)))))"
proof -
  have "Clean_loop L D s [] = concat (map EncodeRune (filter (allowed L D) (runes s)))"
    by (simp add: Clean_loop_eq)
  moreover have "concat (map EncodeRune (filter (allowed L D) (runes s))) = []
      \<longleftrightarrow> filter (allowed L D) (runes s) = []"
    by (rule concat_EncodeRune_Nil)
  ultimately show ?thesis
    by (simp only: Clean_def Let_def length_0_conv split: if_split)
qed

text \<open>
  C4. For every input string, \<open>Clean\<close> returns the subsequence of the string's Unicode
  code points that are letters, digits or one of \<open>- _ . /\<close> (as a string, that is in
  UTF-8); it fails with the empty-input error exactly when the input is empty and with
  the empty-result error exactly when the input is not empty and nothing is kept. In
  particular \<open>Clean("")\<close> and \<open>Clean("#$%")\<close> fail and \<open>Clean("cpu#1")\<close> is \<open>"cpu1"\<close>.
\<close>

theorem Clean_spec:
  "Clean L D s =
     (if s = [] then Inl ErrCleanEmptyInput
      else if filter (allowed L D) (runes s) = [] then Inl ErrCleanEmptyResult
      else Inr (concat (map EncodeRune (filter (allowed L D) (runes s)))))
   \<and> (Clean L D s = Inl ErrCleanEmptyInput \<longleftrightarrow> s = [])
   \<and> (Clean L D s = Inl ErrCleanEmptyResult
        \<longleftrightarrow> s \<noteq> [] \<and> filter (allowed L D) (runes s) = [])
   \<and> Clean L D [] = Inl ErrCleanEmptyInput
   \<and> Clean L D ''#$%'' = Inl ErrCleanEmptyResult
   \<and> Clean L D ''cpu#1'' = Inr ''cpu1''"
proof -
  have a: "Clean L D s = Inl ErrCleanEmptyInput \<longleftrightarrow> s = []"
    by (simp add: Clean_runes)
  have b: "Clean L D s = Inl ErrCleanEmptyResult
      \<longleftrightarrow> s \<noteq> [] \<and> filter (allowed L D) (runes s) = []"
    by (simp add: Clean_runes)
  have c: "Clean L D [] = Inl ErrCleanEmptyInput"
    by (simp add: Clean_def)
  have d: "Clean L D ''#$%'' = Inl ErrCleanEmptyResult"
    by code_simp
  have e: "Clean L D ''cpu#1'' = Inr ''cpu1''"
    by code_simp
  from Clean_runes [of L D s] a b c d e show ?thesis by blast
qed

theorem Clean_spec_witness:
  "Clean (\<lambda>r. r = 0xE9) (\<lambda>_. False) [CHR ''a'', CHR 0xC3, CHR 0xA9, CHR ''!'', CHR ''9'']
     = Inr [CHR ''a'', CHR 0xC3, CHR 0xA9, CHR ''9'']
   \<and> Clean (\<lambda>r. r = 0xE9) (\<lambda>_. False) ''#$%'' = Inl ErrCleanEmptyResult"
proof -
  have r: "runes [CHR ''a'', CHR 0xC3, CHR 0xA9, CHR ''!'', CHR ''9''] = [0x61, 0xE9, 0x21, 0x39]"
    by code_simp
  have k: "filter (allowed (\<lambda>r. r = 0xE9) (\<lambda>_. False)) [0x61, 0xE9, 0x21, 0x39]
      = [0x61, 0xE9, 0x39]"
    by code_simp
  have e: "concat (map EncodeRune [0x61, 0xE9, 0x39]) = [CHR ''a'', CHR 0xC3, CHR 0xA9, CHR ''9'']"
    by code_simp
  from Clean_spec [of "\<lambda>r. r = 0xE9" "\<lambda>_. False" "[CHR ''a'', CHR 0xC3, CHR 0xA9, CHR ''!'', CHR ''9'']"]
  show ?thesis unfolding r k e by simp
qed

subsection \<open>ParseTime, GetDuration, AutoDownsample\<close>

lemma HasSuffix_append: "HasSuffix (p @ x) x"
  by (simp add: HasSuffix_def)

lemma TrimSuffix_append: "TrimSuffix (p @ x) x = p"
  by (simp add: TrimSuffix_def HasSuffix_def)




lemma Sub_clamp:
  "Sub t u = max (- 9223372036854775808) (min 9223372036854775807 (t - u))"
  by (simp add: Sub_def minDuration_def maxDuration_def Let_def)

lemma Sub_in_range: "- 9223372036854775808 \<le> Sub t u \<and> Sub t u \<le> 9223372036854775807"
  by (simp add: Sub_clamp)

lemma Sub_exact:
  "- 9223372036854775808 \<le> t - u \<Longrightarrow> t - u \<le> 9223372036854775807 \<Longrightarrow> Sub t u = t - u"
  by (simp add: Sub_clamp)

text \<open>
  C7, as amended. \<open>GetDuration\<close> fails exactly when the start of the request is the empty
  string, or \<open>ParseTime\<close> fails on the start, or the end is present and \<open>ParseTime\<close> fails
  on it. When the end is absent it is the current instant. On success the result is the
  end minus the start kept within the range of a duration, from \<open>-2\<^sup>6\<^sup>3\<close> to
  \<open>2\<^sup>6\<^sup>3 - 1\<close> nanoseconds: the difference itself when it lies in that range, also when it
  is negative, and the nearer bound of the range otherwise.
\<close>

theorem GetDuration_clamped:
  "(isl (GetDuration tp pd now1 now2 r) \<longleftrightarrow>
      Start r = VString [] \<or> isl (ParseTime tp pd now1 (Start r))
      \<or> (End r \<noteq> VNil \<and> isl (ParseTime tp pd now2 (End r))))
   \<and> (Start r \<noteq> VString [] \<and> ParseTime tp pd now1 (Start r) = Inr start \<and> End r = VNil
        \<longrightarrow> GetDuration tp pd now1 now2 r
              = Inr (max (- 9223372036854775808) (min 9223372036854775807 (now2 - start))))
   \<and> (Start r \<noteq> VString [] \<and> ParseTime tp pd now1 (Start r) = Inr start \<and> End r \<noteq> VNil
        \<and> ParseTime tp pd now2 (End r) = Inr end'
        \<longrightarrow> GetDuration tp pd now1 now2 r
              = Inr (max (- 9223372036854775808) (min 9223372036854775807 (end' - start))))
   \<and> GetDuration tp pd now1 now2 (r\<lparr>Start := VInt64 10, End := VInt64 4\<rparr>) = Inr (- 6000000000)"
proof -
  have a: "isl (GetDuration tp pd now1 now2 r) \<longleftrightarrow>
      Start r = VString [] \<or> isl (ParseTime tp pd now1 (Start r))
      \<or> (End r \<noteq> VNil \<and> isl (ParseTime tp pd now2 (End r)))"
    by (simp add: GetDuration_def split: sum.splits)
  have b: "Start r \<noteq> VString [] \<and> ParseTime tp pd now1 (Start r) = Inr start \<and> End r = VNil
        \<longrightarrow> GetDuration tp pd now1 now2 r
              = Inr (max (- 9223372036854775808) (min 9223372036854775807 (now2 - start)))"
    by (simp add: GetDuration_def Sub_clamp)
  have c: "Start r \<noteq> VString [] \<and> ParseTime tp pd now1 (Start r) = Inr start \<and> End r \<noteq> VNil
        \<and> ParseTime tp pd now2 (End r) = Inr end'
        \<longrightarrow> GetDuration tp pd now1 now2 r
              = Inr (max (- 9223372036854775808) (min 9223372036854775807 (end' - start)))"
    by (simp add: GetDuration_def Sub_clamp)
  have d: "GetDuration tp pd now1 now2 (r\<lparr>Start := VInt64 10, End := VInt64 4\<rparr>) = Inr (- 6000000000)"
    by (simp add: GetDuration_def ParseTime_def time_Unix_def Sub_clamp)
  from a b c d show ?thesis by blast
qed

theorem GetDuration_clamped_witness:
  "isl (GetDuration no_layout resolve_literal 100 200
          \<lparr>Start = VString [], End = VNil, Queries = [], NoAnnotations = False,
           GlobalAnnotations = False, MsResolution = False, ShowTSUIDs = False\<rparr>)
   \<and> GetDuration no_layout resolve_literal 100 200
        \<lparr>Start = VInt64 1400000000, End = VInt64 1400003600, Queries = [],
         NoAnnotations = False, GlobalAnnotations = False, MsResolution = False,
         ShowTSUIDs = False\<rparr>
      = Inr 3600000000000
   \<and> GetDuration no_layout resolve_literal 100 200
        \<lparr>Start = VInt64 10, End = VInt64 4, Queries = [], NoAnnotations = False,
         GlobalAnnotations = False, MsResolution = False, ShowTSUIDs = False\<rparr>
      = Inr (- 6000000000)"
proof -
  let ?r1 = "\<lparr>Start = VString [], End = VNil, Queries = [], NoAnnotations = False,
      GlobalAnnotations = False, MsResolution = False, ShowTSUIDs = False\<rparr>"
  let ?r2 = "\<lparr>Start = VInt64 1400000000, End = VInt64 1400003600, Queries = [],
      NoAnnotations = False, GlobalAnnotations = False, MsResolution = False,
      ShowTSUIDs = False\<rparr>"
  have s: "ParseTime no_layout resolve_literal 100 (Start ?r2) = Inr 1400000000000000000"
    by (simp add: ParseTime_def time_Unix_def)
  have e: "ParseTime no_layout resolve_literal 200 (End ?r2) = Inr 1400003600000000000"
    by (simp add: ParseTime_def time_Unix_def)
  from GetDuration_clamped [of no_layout resolve_literal 100 200 ?r1 0 0]
  have 1: "isl (GetDuration no_layout resolve_literal 100 200 ?r1)"
    and 3: "GetDuration no_layout resolve_literal 100 200
              (?r1\<lparr>Start := VInt64 10, End := VInt64 4\<rparr>) = Inr (- 6000000000)"
    by simp_all
  from GetDuration_clamped [of no_layout resolve_literal 100 200 ?r2
      1400000000000000000 1400003600000000000] s e
  have 2: "GetDuration no_layout resolve_literal 100 200 ?r2 = Inr 3600000000000"
    by simp
  from 1 2 3 show ?thesis by simp
qed

text \<open>
  C7 as stated fails: with start 0 and end 1099511627776 (\<open>2\<^sup>4\<^sup>0\<close> seconds after the
  epoch) both resolve, the end minus the start is 1099511627776000000000 ns, and
  \<open>GetDuration\<close> returns the largest duration, 9223372036854775807 ns.
\<close>

theorem GetDuration_clamped_counterexample:
  "ParseTime no_layout resolve_literal 100 (VInt64 0) = Inr 0
   \<and> ParseTime no_layout resolve_literal 200 (VInt64 1099511627776)
       = Inr 1099511627776000000000
   \<and> GetDuration no_layout resolve_literal 100 200
        \<lparr>Start = VInt64 0, End = VInt64 1099511627776, Queries = [], NoAnnotations = False,
         GlobalAnnotations = False, MsResolution = False, ShowTSUIDs = False\<rparr>
      = Inr 9223372036854775807
   \<and> (1099511627776000000000 :: int) - 0 \<noteq> 9223372036854775807"
  by (simp add: GetDuration_def ParseTime_def time_Unix_def Sub_def minDuration_def
      maxDuration_def)

lemma quo_nonneg: "0 \<le> a \<Longrightarrow> 0 < b \<Longrightarrow> quo a b = a div b"
  by (cases "a = 0") (simp_all add: quo_def)

lemma quo_neg: "a < 0 \<Longrightarrow> 0 < b \<Longrightarrow> quo a b \<le> 0"
  by (simp add: quo_def mult_le_0_iff pos_imp_zdiv_nonneg_iff)

lemma quo_below:
  assumes "0 < l"
  shows "quo cd l < 15000000000 \<longleftrightarrow> real_of_int cd / real_of_int l < 15000000000"
proof (cases "cd < 0")
  case True
  then have "quo cd l \<le> 0" using assms by (rule quo_neg)
  moreover have "real_of_int cd / real_of_int l < 0"
    using True assms by (simp add: divide_neg_pos)
  ultimately show ?thesis by simp
next
  case False
  then have q: "quo cd l = cd div l" using assms by (simp add: quo_nonneg)
  have "cd div l = \<lfloor>real_of_int cd / real_of_int l\<rfloor>"
    by (simp add: floor_divide_of_int_eq)
  then have "cd div l < 15000000000 \<longleftrightarrow> real_of_int cd / real_of_int l < 15000000000"
    by (simp add: floor_less_iff)
  then show ?thesis using q by simp
qed

lemma seconds_floor:
  assumes "0 < l" and "\<not> quo cd l < 15000000000"
  shows "int64_of (Seconds (quo cd l)) = \<lfloor>real_of_int cd / real_of_int l / 1000000000\<rfloor>"
proof -
  have nn: "0 \<le> cd"
  proof (rule ccontr)
    assume "\<not> 0 \<le> cd"
    then have "quo cd l \<le> 0" using assms(1) by (simp add: quo_neg)
    with assms(2) show False by simp
  qed
  then have q: "quo cd l = cd div l" using assms(1) by (simp add: quo_nonneg)
  have pos: "0 \<le> cd div l" using nn assms(1) by (simp add: pos_imp_zdiv_nonneg_iff)
  have "int64_of (Seconds (quo cd l)) = \<lfloor>real_of_int (cd div l) / real_of_int 1000000000\<rfloor>"
    using pos by (simp add: int64_of_def Seconds_def q)
  also have "\<dots> = cd div l div 1000000000"
    by (rule floor_divide_of_int_eq)
  also have "\<dots> = cd div (l * 1000000000)"
    by (simp add: zdiv_zmult2_eq)
  also have "\<dots> = \<lfloor>real_of_int cd / real_of_int (l * 1000000000)\<rfloor>"
    by (rule floor_divide_of_int_eq [symmetric])
  also have "\<dots> = \<lfloor>real_of_int cd / real_of_int l / 1000000000\<rfloor>"
    by simp
  finally show ?thesis .
qed

lemma GetDuration_in_range:
  assumes "GetDuration tp pd now1 now2 r = Inr cd"
  shows "- 9223372036854775808 \<le> cd \<and> cd \<le> 9223372036854775807"
proof -
  from assms obtain t u where "cd = Sub t u"
    by (auto simp: GetDuration_def split: if_splits sum.splits)
  then show ?thesis by (simp add: Sub_in_range)
qed

lemma wrap64_id:
  assumes "- 9223372036854775808 \<le> x" and "x \<le> 9223372036854775807"
  shows "wrap64 x = x"
proof -
  have "(x + 9223372036854775808) mod 18446744073709551616 = x + 9223372036854775808"
    using assms by (intro mod_pos_pos_trivial) simp_all
  then show ?thesis by (simp add: wrap64_def)
qed

lemma quo_bounds:
  assumes "0 < l"
  shows "min 0 cd \<le> quo cd l \<and> quo cd l \<le> max 0 cd"
proof -
  have "0 \<le> \<bar>cd\<bar> div l"
    using assms by (simp add: pos_imp_zdiv_nonneg_iff)
  moreover have "\<bar>cd\<bar> div l \<le> \<bar>cd\<bar> div 1"
    using assms by (intro zdiv_mono2) simp_all
  moreover have "quo cd l = sgn cd * (\<bar>cd\<bar> div l)"
    using assms by (simp add: quo_def)
  ultimately show ?thesis
    by (cases "cd < 0"; cases "cd = 0") (simp_all add: sgn_if)
qed

lemma wrap64_quo:
  assumes "GetDuration tp pd now1 now2 r = Inr cd" and "0 < l"
  shows "wrap64 (quo cd l) = quo cd l"
proof -
  from GetDuration_in_range [OF assms(1)] quo_bounds [OF assms(2), of cd]
  have "- 9223372036854775808 \<le> quo cd l" and "quo cd l \<le> 9223372036854775807"
    by linarith+
  then show ?thesis by (rule wrap64_id)
qed

lemma AutoDownsample_window:
  assumes "GetDuration tp pd now1 now2 r = Inr cd" and "0 < l"
  shows "AutoDownsample tp pd now1 now2 r l =
     (if real_of_int cd / real_of_int l < 15 * 1000000000 then Inr r
      else Inr (r\<lparr>Queries :=
             map (\<lambda>q. q\<lparr>Downsample :=
                    fmt_d \<lfloor>real_of_int cd / real_of_int l / 1000000000\<rfloor> @ ''s-avg''\<rparr>)
               (Queries r)\<rparr>))"
proof (cases "quo cd l < 15000000000")
  case True
  then have "real_of_int cd / real_of_int l < 15 * 1000000000"
    using quo_below [OF assms(2), of cd] by simp
  with True show ?thesis
    using assms by (simp add: AutoDownsample_def Second_def wrap64_quo [OF assms])
next
  case False
  then have "\<not> real_of_int cd / real_of_int l < 15 * 1000000000"
    using quo_below [OF assms(2), of cd] by simp
  with False show ?thesis
    using assms seconds_floor [OF assms(2) False]
    by (simp add: AutoDownsample_def Second_def Let_def wrap64_quo [OF assms])
qed

lemma fmt_d_900: "fmt_d 900 = ''900''"
  by code_simp

text \<open>
  C5. For every request whose window duration resolves to \<open>cd\<close> and every target point
  count \<open>l > 0\<close>: when \<open>cd / l\<close> is below 15 seconds, \<open>AutoDownsample\<close> succeeds and
  leaves the request as it is; otherwise it sets the downsample of every query, whatever
  it was, to the whole seconds of \<open>cd / l\<close> followed by \<open>s-avg\<close>. A window of one hour
  with target 4 gives \<open>900s-avg\<close>; a window of ten seconds with target 1000 changes
  nothing.
\<close>

theorem AutoDownsample_spec:
  assumes "GetDuration tp pd now1 now2 r = Inr cd" and "0 < l"
  shows "AutoDownsample tp pd now1 now2 r l =
     (if real_of_int cd / real_of_int l < 15 * 1000000000 then Inr r
      else Inr (r\<lparr>Queries :=
             map (\<lambda>q. q\<lparr>Downsample :=
                    fmt_d \<lfloor>real_of_int cd / real_of_int l / 1000000000\<rfloor> @ ''s-avg''\<rparr>)
               (Queries r)\<rparr>))
   \<and> (cd = 3600 * Second \<longrightarrow>
        AutoDownsample tp pd now1 now2 r 4 =
          Inr (r\<lparr>Queries := map (\<lambda>q. q\<lparr>Downsample := ''900s-avg''\<rparr>) (Queries r)\<rparr>))
   \<and> (cd = 10 * Second \<longrightarrow> AutoDownsample tp pd now1 now2 r 1000 = Inr r)"
proof -
  have a: "cd = 3600 * Second \<longrightarrow>
        AutoDownsample tp pd now1 now2 r 4 =
          Inr (r\<lparr>Queries := map (\<lambda>q. q\<lparr>Downsample := ''900s-avg''\<rparr>) (Queries r)\<rparr>)"
    using AutoDownsample_window [OF assms(1), of 4] by (simp add: Second_def fmt_d_900)
  have b: "cd = 10 * Second \<longrightarrow> AutoDownsample tp pd now1 now2 r 1000 = Inr r"
    using AutoDownsample_window [OF assms(1), of 1000] by (simp add: Second_def)
  from AutoDownsample_window [OF assms] a b show ?thesis by blast
qed

theorem AutoDownsample_spec_witness:
  "AutoDownsample no_layout resolve_literal 100 200
     \<lparr>Start = VInt64 1400000000, End = VInt64 1400003600,
      Queries = [\<lparr>Aggregator = ''sum'', Metric = ''cpu'', Rate = False,
                  RateOptions = \<lparr>Counter = False, CounterMax = 0, ResetValue = 0\<rparr>,
                  Downsample = ''1m-sum'', Tags = []\<rparr>],
      NoAnnotations = False, GlobalAnnotations = False, MsResolution = False,
      ShowTSUIDs = False\<rparr> 4
   = Inr \<lparr>Start = VInt64 1400000000, End = VInt64 1400003600,
      Queries = [\<lparr>Aggregator = ''sum'', Metric = ''cpu'', Rate = False,
                  RateOptions = \<lparr>Counter = False, CounterMax = 0, ResetValue = 0\<rparr>,
                  Downsample = ''900s-avg'', Tags = []\<rparr>],
      NoAnnotations = False, GlobalAnnotations = False, MsResolution = False,
      ShowTSUIDs = False\<rparr>"
proof -
  have g: "GetDuration no_layout resolve_literal 100 200
     \<lparr>Start = VInt64 1400000000, End = VInt64 1400003600,
      Queries = [\<lparr>Aggregator = ''sum'', Metric = ''cpu'', Rate = False,
                  RateOptions = \<lparr>Counter = False, CounterMax = 0, ResetValue = 0\<rparr>,
                  Downsample = ''1m-sum'', Tags = []\<rparr>],
      NoAnnotations = False, GlobalAnnotations = False, MsResolution = False,
      ShowTSUIDs = False\<rparr> = Inr 3600000000000"
    by (simp add: GetDuration_def ParseTime_def time_Unix_def Sub_clamp)
  have l: "(0::int) < 4" by simp
  from AutoDownsample_spec [OF g l] show ?thesis
    by (simp add: Second_def fmt_d_900)
qed

subsection \<open>Cache.Query\<close>

lemma Cache_Query_hit:
  fixes v :: "'a cacheResult"
  assumes "marshal r = Inr s" and "cache c s = Some v"
  shows "Cache_Query marshal tr c w r = ((ResponseSet v, Err v), c, w)"
  using assms by (simp add: Cache_Query_def)

lemma Cache_Query_stores:
  assumes "marshal r = Inr s" and "Cache_Query marshal tr c w r = (res, c', w')"
  shows "cache c' s = Some \<lparr>ResponseSet = fst res, Err = snd res\<rparr>
         \<and> length w' \<le> length w + 1"
proof (cases "cache c s")
  case None
  obtain rs e where t: "tr w (host c) r = (rs, e)" by (cases "tr w (host c) r")
  from assms(1) None t
  have "Cache_Query marshal tr c w r
      = ((rs, e), c\<lparr>cache := (cache c)(s \<mapsto> \<lparr>ResponseSet = rs, Err = e\<rparr>)\<rparr>, w @ [(host c, r)])"
    by (simp add: Cache_Query_def)
  with assms(2) show ?thesis by auto
next
  case (Some v)
  with assms show ?thesis by (auto simp: Cache_Query_def)
qed

text \<open>An entry of the cache is never removed and never overwritten.\<close>

lemma Cache_Query_keeps:
  fixes v :: "'a cacheResult"
  assumes "cache c s = Some v" and "Cache_Query marshal tr c w r = (res, c', w')"
  shows "cache c' s = Some v"
proof (cases "marshal r")
  case (Inl err)
  with assms show ?thesis by (simp add: Cache_Query_def)
next
  case (Inr k)
  show ?thesis
  proof (cases "cache c k")
    case None
    with assms(1) have ne: "k \<noteq> s" by auto
    obtain rs e where t: "tr w (host c) r = (rs, e)" by (cases "tr w (host c) r")
    from Inr None t
    have "Cache_Query marshal tr c w r
        = ((rs, e), c\<lparr>cache := (cache c)(k \<mapsto> \<lparr>ResponseSet = rs, Err = e\<rparr>)\<rparr>, w @ [(host c, r)])"
      by (simp add: Cache_Query_def)
    with assms ne show ?thesis by auto
  next
    case (Some u)
    with Inr assms show ?thesis by (simp add: Cache_Query_def)
  qed
qed

lemma Cache_Queries_keeps:
  fixes v :: "'a cacheResult"
  assumes "cache c s = Some v" and "Cache_Queries marshal tr c w rs = (c', w')"
  shows "cache c' s = Some v"
  using assms
proof (induction rs arbitrary: c w)
  case Nil
  then show ?case by simp
next
  case (Cons r rs)
  obtain res c1 w1 where q: "Cache_Query marshal tr c w r = (res, c1, w1)"
    by (cases "Cache_Query marshal tr c w r")
  from Cache_Query_keeps [OF Cons.prems(1) q] have k: "cache c1 s = Some v" .
  from Cons.prems(2) q have "Cache_Queries marshal tr c1 w1 rs = (c', w')" by simp
  with k show ?case by (rule Cons.IH)
qed

text \<open>
  C2. For every cache and every two calls of \<open>Cache.Query\<close> with requests of the same
  JSON serialization (with any calls of \<open>Cache.Query\<close> between them), the transport is
  invoked at most once by the two calls: the first adds at most one invocation and the
  second none. The second call returns exactly the pair of response set and error that
  the first one left in the cache; an error is replayed and the query is not executed
  again.
\<close>

theorem Cache_Query_idempotent:
  assumes "marshal r1 = marshal r2"
    and "Cache_Query marshal tr c w r1 = (res1, c1, w1)"
    and "Cache_Queries marshal tr c1 w1 rs = (c1', w1')"
    and "Cache_Query marshal tr c1' w1' r2 = (res2, c2, w2)"
  shows "res2 = res1 \<and> length w1 \<le> length w + 1 \<and> w2 = w1'
         \<and> (\<forall>s. marshal r1 = Inr s \<longrightarrow>
               cache c1 s = Some \<lparr>ResponseSet = fst res2, Err = snd res2\<rparr>)"
proof (cases "marshal r1")
  case (Inl err)
  with assms(1) have m2: "marshal r2 = Inl err" by simp
  from assms(2) Inl have "res1 = ([], Some err)" and "w1 = w"
    by (simp_all add: Cache_Query_def)
  moreover from assms(4) m2 have "res2 = ([], Some err)" and "w2 = w1'"
    by (simp_all add: Cache_Query_def)
  ultimately show ?thesis using Inl by simp
next
  case (Inr s)
  from Cache_Query_stores [OF Inr assms(2)]
  have st: "cache c1 s = Some \<lparr>ResponseSet = fst res1, Err = snd res1\<rparr>"
    and le: "length w1 \<le> length w + 1" by simp_all
  from Cache_Queries_keeps [OF st assms(3)]
  have st': "cache c1' s = Some \<lparr>ResponseSet = fst res1, Err = snd res1\<rparr>" .
  from Inr assms(1) have m2: "marshal r2 = Inr s" by simp
  from Cache_Query_hit [of marshal r2 s c1' "\<lparr>ResponseSet = fst res1, Err = snd res1\<rparr>" tr w1',
      OF m2 st'] assms(4)
  have "res2 = res1" and "w2 = w1'" by simp_all
  with st le Inr show ?thesis by simp
qed

theorem Cache_Query_idempotent_witness:
  "fst (Cache_Query (\<lambda>r. Inr (show_start (Start r)))
          (\<lambda>w h r. if w = [] then ([], Some (ErrExternal ''tsdb: unreachable''))
                   else ([1 :: nat], None))
          \<lparr>host = ''tsdb:4242'',
           cache = [''1h-ago'' \<mapsto>
                      \<lparr>ResponseSet = [], Err = Some (ErrExternal ''tsdb: unreachable'')\<rparr>]\<rparr>
          [(''tsdb:4242'',
            \<lparr>Start = VString ''1h-ago'', End = VNil, Queries = [], NoAnnotations = False,
             GlobalAnnotations = False, MsResolution = False, ShowTSUIDs = False\<rparr>)]
          \<lparr>Start = VString ''1h-ago'', End = VNil, Queries = [], NoAnnotations = False,
           GlobalAnnotations = False, MsResolution = False, ShowTSUIDs = False\<rparr>)
     = ([], Some (ErrExternal ''tsdb: unreachable''))"
proof -
  let ?m = "\<lambda>r. Inr (show_start (Start r)) :: error + string"
  let ?e = "([], Some (ErrExternal ''tsdb: unreachable'')) :: nat list \<times> error option"
  let ?tr = "\<lambda>(w :: (string \<times> Request) list) (h :: string) (r :: Request).
      if w = [] then ?e else ([1], None)"
  let ?r = "\<lparr>Start = VString ''1h-ago'', End = VNil, Queries = [], NoAnnotations = False,
            GlobalAnnotations = False, MsResolution = False, ShowTSUIDs = False\<rparr>"
  let ?c1 = "\<lparr>host = ''tsdb:4242'',
           cache = [''1h-ago'' \<mapsto>
                      \<lparr>ResponseSet = [], Err = Some (ErrExternal ''tsdb: unreachable'')\<rparr>]\<rparr>
        :: nat Cache"
  have 1: "Cache_Query ?m ?tr (NewCache ''tsdb:4242'') [] ?r = (?e, ?c1, [(''tsdb:4242'', ?r)])"
    by (simp add: Cache_Query_def NewCache_def show_start_def)
  have b: "Cache_Queries ?m ?tr ?c1 [(''tsdb:4242'', ?r)] [] = (?c1, [(''tsdb:4242'', ?r)])"
    by simp
  obtain res2 c2 w2 where 2: "Cache_Query ?m ?tr ?c1 [(''tsdb:4242'', ?r)] ?r = (res2, c2, w2)"
    by (cases "Cache_Query ?m ?tr ?c1 [(''tsdb:4242'', ?r)] ?r")
  from Cache_Query_idempotent [OF refl 1 b 2] have "res2 = ?e" by simp
  with 2 show ?thesis by simp
qed

subsection \<open>DateCache.Query\<close>


lemma DateCache_rewrite_resolved:
  fixes r :: Request
  assumes "ParseTime tp pd now1 (Start r) = Inr start"
    and "(if End r \<noteq> VNil then ParseTime tp pd now2 (End r) else Inr now2) = Inr end'"
  shows "DateCache_rewrite tp pd now1 now2 cnow r =
           Inr (r\<lparr>Start := VInt64 (Unix (start + Sub cnow end')),
                  End := VInt64 (Unix (end' + Sub cnow end'))\<rparr>)"
  using assms by (simp add: DateCache_rewrite_def Add_def Let_def)

text \<open>
  What the rewritten start of a relative request depends on: the reference instant, the
  duration, and the time that passed between the two readings of the clock.
\<close>

lemma DateCache_rewrite_relative:
  fixes r :: Request
  assumes "Start r = VString (p @ ''-ago'')" and "pd p = Inr d" and "End r = VNil"
    and "- 9223372036854775808 \<le> cnow - now2" and "cnow - now2 \<le> 9223372036854775807"
  shows "DateCache_rewrite tp pd now1 now2 cnow r =
           Inr (r\<lparr>Start := VInt64 (Unix (cnow - d - (now2 - now1))), End := VInt64 (Unix cnow)\<rparr>)"
proof -
  have s: "ParseTime tp pd now1 (Start r) = Inr (now1 - d)"
    using assms(1,2)
    by (simp add: ParseTime_def HasSuffix_append TrimSuffix_append Add_def)
  have e: "(if End r \<noteq> VNil then ParseTime tp pd now2 (End r) else Inr now2) = Inr now2"
    using assms(3) by simp
  have x: "Sub cnow now2 = cnow - now2"
    using assms(4,5) by (rule Sub_exact)
  have "now1 - d + (cnow - now2) = cnow - d - (now2 - now1)" by simp
  with DateCache_rewrite_resolved [OF s e, of cnow] x show ?thesis by simp
qed




text \<open>
  C1 at a concrete input. One DateCache with reference instant 1400010000.0000005 s and
  the request with start \<open>1h-ago\<close> and no end, evaluated twice. In the first evaluation
  100 ns pass between the two readings of the clock, in the second 900 ns. The rewritten
  ends agree and the rewritten starts differ by a second; with a serialization that
  writes the start, the transport is invoked for each of the two.
\<close>

theorem DateCache_Query_clock_gap:
  "DateCache_rewrite no_layout resolve_literal 1400020000000000000 1400020000000000100
       1400010000000000500
       \<lparr>Start = VString ''1h-ago'', End = VNil, Queries = [], NoAnnotations = False,
        GlobalAnnotations = False, MsResolution = False, ShowTSUIDs = False\<rparr>
     = Inr \<lparr>Start = VInt64 1400006400, End = VInt64 1400010000, Queries = [],
          NoAnnotations = False, GlobalAnnotations = False, MsResolution = False,
          ShowTSUIDs = False\<rparr>
   \<and> DateCache_rewrite no_layout resolve_literal 1400020007000000000 1400020007000000900
       1400010000000000500
       \<lparr>Start = VString ''1h-ago'', End = VNil, Queries = [], NoAnnotations = False,
        GlobalAnnotations = False, MsResolution = False, ShowTSUIDs = False\<rparr>
     = Inr \<lparr>Start = VInt64 1400006399, End = VInt64 1400010000, Queries = [],
          NoAnnotations = False, GlobalAnnotations = False, MsResolution = False,
          ShowTSUIDs = False\<rparr>
   \<and> (case DateCache_Query (\<lambda>r. Inr (show_start (Start r)))
             (\<lambda>w h r. ([length w], None))
             no_layout resolve_literal 1400020000000000000 1400020000000000100
             (NewDateCache ''tsdb:4242'' 1400010000000000500) []
             \<lparr>Start = VString ''1h-ago'', End = VNil, Queries = [], NoAnnotations = False,
              GlobalAnnotations = False, MsResolution = False, ShowTSUIDs = False\<rparr> of
        (res1, c1, w1) \<Rightarrow>
          (case DateCache_Query (\<lambda>r. Inr (show_start (Start r))) (\<lambda>w h r. ([length w], None))
                  no_layout resolve_literal 1400020007000000000 1400020007000000900 c1 w1
                  \<lparr>Start = VString ''1h-ago'', End = VNil, Queries = [], NoAnnotations = False,
                   GlobalAnnotations = False, MsResolution = False, ShowTSUIDs = False\<rparr> of
             (res2, c2, w2) \<Rightarrow> length w2 = 2 \<and> res1 = ([0], None) \<and> res2 = ([1], None)))"
proof -
  let ?r = "\<lparr>Start = VString ''1h-ago'', End = VNil, Queries = [], NoAnnotations = False,
        GlobalAnnotations = False, MsResolution = False, ShowTSUIDs = False\<rparr>"
  have p: "Start ?r = VString (''1h'' @ ''-ago'')" by simp
  have d: "resolve_literal ''1h'' = Inr 3600000000000"
    by (simp add: resolve_literal_def Second_def)
  have n: "End ?r = VNil" by simp
  have a: "DateCache_rewrite no_layout resolve_literal 1400020000000000000 1400020000000000100
       1400010000000000500 ?r = Inr (?r\<lparr>Start := VInt64 1400006400, End := VInt64 1400010000\<rparr>)"
    by (simp add: DateCache_rewrite_relative [where pd = resolve_literal and p = "''1h''", OF p d n] Unix_def)
  have b: "DateCache_rewrite no_layout resolve_literal 1400020007000000000 1400020007000000900
       1400010000000000500 ?r = Inr (?r\<lparr>Start := VInt64 1400006399, End := VInt64 1400010000\<rparr>)"
    by (simp add: DateCache_rewrite_relative [where pd = resolve_literal and p = "''1h''", OF p d n] Unix_def)
  have k1: "show_start (VInt64 1400006400) = ''1400006400''"
    unfolding show_start_def by code_simp
  have k2: "show_start (VInt64 1400006399) = ''1400006399''"
    unfolding show_start_def by code_simp
  let ?m = "\<lambda>r. Inr (show_start (Start r)) :: error + string"
  let ?tr = "\<lambda>(w :: (string \<times> Request) list) (h :: string) (r :: Request).
      ([length w], None :: error option)"
  let ?r1 = "\<lparr>Start = VInt64 1400006400, End = VInt64 1400010000, Queries = [],
      NoAnnotations = False, GlobalAnnotations = False, MsResolution = False,
      ShowTSUIDs = False\<rparr>"
  let ?r2 = "\<lparr>Start = VInt64 1400006399, End = VInt64 1400010000, Queries = [],
      NoAnnotations = False, GlobalAnnotations = False, MsResolution = False,
      ShowTSUIDs = False\<rparr>"
  let ?c1 = "\<lparr>Cache = \<lparr>host = ''tsdb:4242'',
                        cache = [''1400006400'' \<mapsto> \<lparr>ResponseSet = [0], Err = None\<rparr>]\<rparr>,
             now = 1400010000000000500\<rparr> :: nat DateCache"
  let ?c2 = "\<lparr>Cache = \<lparr>host = ''tsdb:4242'',
                        cache = [''1400006400'' \<mapsto> \<lparr>ResponseSet = [0], Err = None\<rparr>,
                                 ''1400006399'' \<mapsto> \<lparr>ResponseSet = [1], Err = None\<rparr>]\<rparr>,
             now = 1400010000000000500\<rparr> :: nat DateCache"
  have q1: "DateCache_Query ?m ?tr no_layout resolve_literal 1400020000000000000
        1400020000000000100 (NewDateCache ''tsdb:4242'' 1400010000000000500) [] ?r
      = (([0], None), ?c1, [(''tsdb:4242'', ?r1)])"
    by (simp add: DateCache_Query_def NewDateCache_def NewCache_def a Cache_Query_def k1)
  have q2: "DateCache_Query ?m ?tr no_layout resolve_literal 1400020007000000000
        1400020007000000900 ?c1 [(''tsdb:4242'', ?r1)] ?r
      = (([1], None), ?c2, [(''tsdb:4242'', ?r1), (''tsdb:4242'', ?r2)])"
    by (simp add: DateCache_Query_def b Cache_Query_def k1 k2)
  show ?thesis
    by (simp add: a b q1 q2)
qed

subsection \<open>ParseQuery and Query.String\<close>

text \<open>
  C3 at its input. The regular expression takes \<open>rate{counter,100,0}\<close> as the rate
  group; split at the commas that is \<open>rate{counter\<close>, \<open>100\<close> and \<open>0}\<close>, and the piece
  with index 2, \<open>0}\<close>, is the one read as the counter maximum. \<open>ParseInt\<close> rejects it
  and \<open>ParseQuery\<close> returns that error instead of a query.
\<close>

theorem ParseQuery_rate_counter:
  "FindStringSubmatch qRE ''sum:rate{counter,100,0}:cpu''
     = Some [''sum:rate{counter,100,0}:cpu'', ''sum'', [], ''rate{counter,100,0}'', ''cpu'', []]
   \<and> Split ''rate{counter,100,0}'' CHR '','' = [''rate{counter'', ''100'', ''0}'']
   \<and> ParseQuery ''sum:rate{counter,100,0}:cpu'' = Inl (ErrSyntax ''0}'')"
  by code_simp

text \<open>
  C8 at a concrete input. The query string \<open>sum:rate,counter,100,0:cpu\<close> parses to a
  query with the counter flag set and counter maximum 100; \<open>String\<close> writes the rate as
  \<open>rate:\<close> without its options, and parsing \<open>sum:rate:cpu\<close> gives a query whose rate
  options are all zero. The same happens to \<open>sum:rate{counter,}:cpu\<close>.
\<close>

theorem Query_String_drops_rate_options:
  "ParseQuery ''sum:rate,counter,100,0:cpu''
     = Inr \<lparr>Aggregator = ''sum'', Metric = ''cpu'', Rate = True,
            RateOptions = \<lparr>Counter = True, CounterMax = 100, ResetValue = 0\<rparr>,
            Downsample = [], Tags = []\<rparr>
   \<and> Query_String \<lparr>Aggregator = ''sum'', Metric = ''cpu'', Rate = True,
            RateOptions = \<lparr>Counter = True, CounterMax = 100, ResetValue = 0\<rparr>,
            Downsample = [], Tags = []\<rparr> = ''sum:rate:cpu''
   \<and> ParseQuery ''sum:rate:cpu''
     = Inr \<lparr>Aggregator = ''sum'', Metric = ''cpu'', Rate = True,
            RateOptions = \<lparr>Counter = False, CounterMax = 0, ResetValue = 0\<rparr>,
            Downsample = [], Tags = []\<rparr>
   \<and> ParseQuery ''sum:rate{counter,}:cpu''
     = Inr \<lparr>Aggregator = ''sum'', Metric = ''cpu'', Rate = True,
            RateOptions = \<lparr>Counter = True, CounterMax = 0, ResetValue = 0\<rparr>,
            Downsample = [], Tags = []\<rparr>"
  by code_simp

end
